theory Spec2Isabelle
  imports Main
begin

section \<open>The term accessors of blaze/expr/utils.h\<close>

text \<open>
  The header \<^verbatim>\<open>utils.h\<close> holds two C functions over the terms of the ATerm library:
  \<^verbatim>\<open>subterms\<close>, the number of subterms of a term, and \<^verbatim>\<open>next_subterm\<close>, the subterm at
  a given index. Both switch on \<^verbatim>\<open>GET_TYPE(t->header)\<close> and hand the term to the library.
  The library itself (\<^verbatim>\<open>aterm2.h\<close>) is not part of the sources, so everything it supplies
  is a parameter of the model.
\<close>

subsection \<open>Pointers\<close>

text \<open>
  An \<^verbatim>\<open>ATerm\<close> is a pointer to a term object; a pointer is an address and \<^verbatim>\<open>NULL\<close> is the
  address 0. \<^verbatim>\<open>next_subterm\<close> is declared to return \<^verbatim>\<open>ATerm*\<close> although it returns what
  \<^verbatim>\<open>ATgetArgument\<close> yields; both are addresses here. The cast \<^verbatim>\<open>(ATermAppl) t\<close> changes
  the static type only, never the address.
\<close>

datatype pointer = Pointer (address: nat)

type_synonym ATerm = pointer

definition NULL :: pointer where
  "NULL = Pointer 0"

text \<open>
  \<^verbatim>\<open>subterms\<close> is declared \<^verbatim>\<open>int\<close> and its last arm is \<^verbatim>\<open>return NULL;\<close>: the pointer
  is converted to an integer, the null pointer to 0. No other pointer is ever converted.
\<close>

definition int_of_pointer :: "pointer \<Rightarrow> int" where
  "int_of_pointer p = int (address p)"

subsection \<open>What the ATerm library supplies\<close>

text \<open>
  \<open>'m\<close> is the state of the library (its heap and symbol table), \<open>'h\<close> the type of a
  header word, \<open>'s\<close> the type \<^verbatim>\<open>Symbol\<close>.
  \<^item> \<open>header m t\<close> is the read \<^verbatim>\<open>t->header\<close> in state \<open>m\<close>;
  \<^item> \<open>GET_TYPE\<close> extracts the type tag of a header word;
  \<^item> \<open>AT_INT\<close>, \<open>AT_REAL\<close>, \<open>AT_BLOB\<close>, \<open>AT_APPL\<close> are the four tags the switches name;
  \<^item> \<open>ATgetSymbol\<close>, \<open>ATgetArity\<close> and \<open>ATgetArgument\<close> are calls into the library:
    each takes the state and returns its result together with the state it leaves.
  Nothing is assumed about them: an argument index outside the term, or a term that
  is no application, gives whatever the library gives. C \<^verbatim>\<open>int\<close> values are integers;
  the two functions do no arithmetic on them.
\<close>

record ('m, 'h, 's) aterm2 =
  header :: "'m \<Rightarrow> ATerm \<Rightarrow> 'h"
  GET_TYPE :: "'h \<Rightarrow> int"
  AT_INT :: int
  AT_REAL :: int
  AT_BLOB :: int
  AT_APPL :: int
  ATgetSymbol :: "ATerm \<Rightarrow> 'm \<Rightarrow> 's \<times> 'm"
  ATgetArity :: "'s \<Rightarrow> 'm \<Rightarrow> int \<times> 'm"
  ATgetArgument :: "ATerm \<Rightarrow> int \<Rightarrow> 'm \<Rightarrow> pointer \<times> 'm"

subsection \<open>The two functions\<close>

text \<open>
  A switch selects one of two arms: the arm shared by the four \<^verbatim>\<open>case\<close> labels, or
  \<^verbatim>\<open>default\<close>. Each function has its own switch; the labels are tried in the order
  in which they are written.
\<close>

datatype arm = Listed | Default

definition subterms_arm :: "('m, 'h, 's) aterm2 \<Rightarrow> 'm \<Rightarrow> ATerm \<Rightarrow> arm" where
  "subterms_arm L m t =
     (let ty = GET_TYPE L (header L m t) in
      if ty = AT_INT L then Listed
      else if ty = AT_REAL L then Listed
      else if ty = AT_BLOB L then Listed
      else if ty = AT_APPL L then Listed
      else Default)"

definition subterms :: "('m, 'h, 's) aterm2 \<Rightarrow> ATerm \<Rightarrow> 'm \<Rightarrow> int \<times> 'm" where
  "subterms L t m =
     (case subterms_arm L m t of
        Listed \<Rightarrow>
          (let (symb, m1) = ATgetSymbol L t m;
               (arity, m2) = ATgetArity L symb m1
           in (arity, m2))
      | Default \<Rightarrow> (int_of_pointer NULL, m))"

definition next_subterm_arm :: "('m, 'h, 's) aterm2 \<Rightarrow> 'm \<Rightarrow> ATerm \<Rightarrow> int \<Rightarrow> arm" where
  "next_subterm_arm L m t n =
     (let ty = GET_TYPE L (header L m t) in
      if ty = AT_INT L then Listed
      else if ty = AT_REAL L then Listed
      else if ty = AT_BLOB L then Listed
      else if ty = AT_APPL L then Listed
      else Default)"

definition next_subterm :: "('m, 'h, 's) aterm2 \<Rightarrow> ATerm \<Rightarrow> int \<Rightarrow> 'm \<Rightarrow> pointer \<times> 'm" where
  "next_subterm L t n m =
     (case next_subterm_arm L m t n of
        Listed \<Rightarrow> ATgetArgument L t n m
      | Default \<Rightarrow> (NULL, m))"

subsection \<open>Enumerating the children\<close>

text \<open>
  Modelled from the spec: \<^verbatim>\<open>children(term)\<close>, the children of a term in declaration
  order. The sources hold no such loop; it is the loop a caller writes over the two
  functions: ask \<open>subterms\<close> for the count, then call \<open>next_subterm\<close> at the indices
  0, 1, ... below the count, threading the state through every call.
\<close>

fun children_from ::
  "('m, 'h, 's) aterm2 \<Rightarrow> ATerm \<Rightarrow> int \<Rightarrow> nat \<Rightarrow> 'm \<Rightarrow> pointer list \<times> 'm" where
  "children_from L t i 0 m = ([], m)"
| "children_from L t i (Suc k) m =
     (let (c, m1) = next_subterm L t i m;
          (cs, m2) = children_from L t (i + 1) k m1
      in (c # cs, m2))"

definition children :: "('m, 'h, 's) aterm2 \<Rightarrow> ATerm \<Rightarrow> 'm \<Rightarrow> pointer list \<times> 'm" where
  "children L t m =
     (let (a, m1) = subterms L t m in children_from L t 0 (nat a) m1)"

subsection \<open>What the two functions rely on\<close>

text \<open>
  Modelled from the spec: an Application term built from a symbol \<open>s\<close> and the ordered
  children \<open>cs\<close>, as the library presents it in state \<open>m\<close>. The constructor is not part
  of the sources; the spec fixes what the accessors give on its result: the tag is
  \<open>AT_APPL\<close>, the symbol is \<open>s\<close>, the arity of \<open>s\<close> is the number of children, and the
  argument at each index below that number is the child at that index. Reading such
  a term changes nothing.
\<close>

definition is_apply ::
  "('m, 'h, 's) aterm2 \<Rightarrow> 'm \<Rightarrow> ATerm \<Rightarrow> 's \<Rightarrow> pointer list \<Rightarrow> bool" where
  "is_apply L m t s cs \<longleftrightarrow>
     GET_TYPE L (header L m t) = AT_APPL L \<and>
     ATgetSymbol L t m = (s, m) \<and>
     ATgetArity L s m = (int (length cs), m) \<and>
     map (\<lambda>i. ATgetArgument L t (int i) m) [0..<length cs] = map (\<lambda>c. (c, m)) cs"

text \<open>
  The three library calls are accessors. \<open>read_only\<close> says that they are nothing more:
  each returns the state it was given.
\<close>

definition read_only :: "('m, 'h, 's) aterm2 \<Rightarrow> bool" where
  "read_only L \<longleftrightarrow>
     (\<forall>t m. snd (ATgetSymbol L t m) = m) \<and>
     (\<forall>s m. snd (ATgetArity L s m) = m) \<and>
     (\<forall>t n m. snd (ATgetArgument L t n m) = m)"

subsection \<open>The term store\<close>

text \<open>
  Modelled from the spec: the Term Store and the Term Builder (sections 3, 4.1 and 4.4
  of the spec). The sources hold no code that constructs a term: they only read terms
  that the library made. The spec describes a store of immutable term nodes, a handle
  being a reference to a slot of it, and one operation \<^verbatim>\<open>intern\<close> that returns the
  handle of the existing node of identical structure if there is one and otherwise
  creates and registers a node. The four constructors delegate to it; \<^verbatim>\<open>apply\<close> fails
  with \<^verbatim>\<open>ArityMismatch\<close> when the number of children is not the declared arity of the
  symbol. Here the store is the list of its nodes, never reclaimed, and a handle is
  the index of a slot. The payload of a real is a type parameter.
\<close>

datatype ErrorKind = IndexOutOfRange | NotApplicable | ArityMismatch | ArityConflict

type_synonym Handle = nat

datatype Symbol = Symbol (name: string) (declared_arity: nat)

datatype 'r Term =
    Integer int
  | Real 'r
  | Blob "nat list"
  | Application Symbol "Handle list"

type_synonym 'r Store = "'r Term list"

fun find_slot :: "'a \<Rightarrow> 'a list \<Rightarrow> nat option" where
  "find_slot k [] = None"
| "find_slot k (x # xs) = (if x = k then Some 0 else map_option Suc (find_slot k xs))"

definition intern :: "'r Term \<Rightarrow> 'r Store \<Rightarrow> Handle \<times> 'r Store" where
  "intern k st =
     (case find_slot k st of
        Some h \<Rightarrow> (h, st)
      | None \<Rightarrow> (length st, st @ [k]))"

definition apply_term ::
  "Symbol \<Rightarrow> Handle list \<Rightarrow> 'r Store \<Rightarrow> (ErrorKind + Handle) \<times> 'r Store" where
  "apply_term s cs st =
     (if length cs = declared_arity s
      then (let (h, st') = intern (Application s cs) st in (Inr h, st'))
      else (Inl ArityMismatch, st))"

definition integer_term :: "int \<Rightarrow> 'r Store \<Rightarrow> Handle \<times> 'r Store" where
  "integer_term v st = intern (Integer v) st"

definition real_term :: "'r \<Rightarrow> 'r Store \<Rightarrow> Handle \<times> 'r Store" where
  "real_term v st = intern (Real v) st"

definition blob_term :: "nat list \<Rightarrow> 'r Store \<Rightarrow> Handle \<times> 'r Store" where
  "blob_term bytes st = intern (Blob bytes) st"

text \<open>
  Between two calls of a constructor the caller may construct any number of other
  terms; \<open>intern_all\<close> is the store after interning a list of nodes one by one.
\<close>

fun intern_all :: "'r Term list \<Rightarrow> 'r Store \<Rightarrow> 'r Store" where
  "intern_all [] st = st"
| "intern_all (k # ks) st = intern_all ks (snd (intern k st))"

subsection \<open>A sample library\<close>

text \<open>
  To run the two functions on concrete terms, the parameters are instantiated by a small
  library over a flat memory of words. A term object is a header word followed by its
  argument words; the header holds the type tag in its low three bits and, above them,
  the symbol number of an application or the byte count of a blob. The accessors read
  without any check, as C macros over raw memory do, and change nothing. \<open>word_at\<close>
  gives 0 outside the memory. Only the concrete evaluations below depend on this
  instance.
\<close>

type_synonym memory = "nat list"

definition word_at :: "memory \<Rightarrow> int \<Rightarrow> nat" where
  "word_at m a = (if 0 \<le> a \<and> nat a < length m then m ! nat a else 0)"

definition flat_header :: "memory \<Rightarrow> ATerm \<Rightarrow> nat" where
  "flat_header m t = word_at m (int (address t))"

definition flat_GET_TYPE :: "nat \<Rightarrow> int" where
  "flat_GET_TYPE h = int (h mod 8)"

definition flat_ATgetSymbol :: "ATerm \<Rightarrow> memory \<Rightarrow> nat \<times> memory" where
  "flat_ATgetSymbol t m = (word_at m (int (address t)) div 8, m)"

definition flat_ATgetArity :: "nat list \<Rightarrow> nat \<Rightarrow> memory \<Rightarrow> int \<times> memory" where
  "flat_ATgetArity tbl s m = (if s < length tbl then int (tbl ! s) else 0, m)"

definition flat_ATgetArgument :: "ATerm \<Rightarrow> int \<Rightarrow> memory \<Rightarrow> pointer \<times> memory" where
  "flat_ATgetArgument t n m = (Pointer (word_at m (int (address t) + 1 + n)), m)"

definition flat :: "nat list \<Rightarrow> (memory, nat, nat) aterm2" where
  "flat tbl =
     \<lparr>header = flat_header, GET_TYPE = flat_GET_TYPE,
      AT_INT = 2, AT_REAL = 3, AT_BLOB = 6, AT_APPL = 1,
      ATgetSymbol = flat_ATgetSymbol, ATgetArity = flat_ATgetArity tbl,
      ATgetArgument = flat_ATgetArgument\<rparr>"

text \<open>
  The sample state: symbol 0 is \<open>c\<close> of arity 0 and symbol 1 is \<open>f\<close> of arity 2. The
  memory holds
  \<^item> at address 1 the integer 1 (header 2, then the value) and at address 3 the integer 2;
  \<^item> at address 5 the application \<open>f(1, 2)\<close>: header \<open>1 + 8 * 1\<close>, then the addresses 1 and 3
    of its children;
  \<^item> at address 8 the constant \<open>c\<close>: header \<open>1 + 8 * 0\<close>, no arguments;
  \<^item> at address 9 a term of tag 4, which none of the four labels names;
  \<^item> at address 10 a blob of one byte: header \<open>6 + 8 * 1\<close>, then the byte.
\<close>

definition sample_symbols :: "nat list" where
  "sample_symbols = [0, 2]"

definition sample_memory :: memory where
  "sample_memory = [0, 2, 1, 2, 2, 9, 1, 3, 1, 4, 14, 255]"

definition sample :: "(memory, nat, nat) aterm2" where
  "sample = flat sample_symbols"

lemmas sample_simps =
  sample_def flat_def sample_symbols_def sample_memory_def word_at_def flat_header_def
  flat_GET_TYPE_def flat_ATgetSymbol_def flat_ATgetArity_def flat_ATgetArgument_def
  subterms_def subterms_arm_def next_subterm_def next_subterm_arm_def
  NULL_def int_of_pointer_def

section \<open>Properties of the two functions\<close>

subsection \<open>The switches\<close>

lemma subterms_arm_Listed:
  "subterms_arm L m t = Listed \<longleftrightarrow>
     GET_TYPE L (header L m t) \<in> {AT_INT L, AT_REAL L, AT_BLOB L, AT_APPL L}"
  by (auto simp: subterms_arm_def Let_def)

lemma next_subterm_arm_Listed:
  "next_subterm_arm L m t n = Listed \<longleftrightarrow>
     GET_TYPE L (header L m t) \<in> {AT_INT L, AT_REAL L, AT_BLOB L, AT_APPL L}"
  by (auto simp: next_subterm_arm_def Let_def)

lemma arm_not_Listed: "a \<noteq> Listed \<longleftrightarrow> a = Default"
  by (cases a) auto

lemma subterms_arm_Default:
  "subterms_arm L m t = Default \<longleftrightarrow>
     GET_TYPE L (header L m t) \<notin> {AT_INT L, AT_REAL L, AT_BLOB L, AT_APPL L}"
  by (simp only: arm_not_Listed [symmetric] subterms_arm_Listed)

lemma next_subterm_arm_Default:
  "next_subterm_arm L m t n = Default \<longleftrightarrow>
     GET_TYPE L (header L m t) \<notin> {AT_INT L, AT_REAL L, AT_BLOB L, AT_APPL L}"
  by (simp only: arm_not_Listed [symmetric] next_subterm_arm_Listed)

lemma subterms_Listed:
  "subterms_arm L m t = Listed \<Longrightarrow>
   subterms L t m = (case ATgetSymbol L t m of (s, m1) \<Rightarrow> ATgetArity L s m1)"
  by (simp add: subterms_def case_prod_beta)

lemma subterms_Default:
  "subterms_arm L m t = Default \<Longrightarrow> subterms L t m = (int_of_pointer NULL, m)"
  by (simp add: subterms_def)

lemma next_subterm_Listed:
  "next_subterm_arm L m t n = Listed \<Longrightarrow> next_subterm L t n m = ATgetArgument L t n m"
  by (simp add: next_subterm_def)

lemma next_subterm_Default:
  "next_subterm_arm L m t n = Default \<Longrightarrow> next_subterm L t n m = (NULL, m)"
  by (simp add: next_subterm_def)

lemma int_of_NULL: "int_of_pointer NULL = 0"
  by (simp add: int_of_pointer_def NULL_def)

subsection \<open>\<open>subterms\<close>\<close>

text \<open>
  Claim C8: for a term whose tag is \<open>AT_INT\<close>, \<open>AT_REAL\<close> or \<open>AT_BLOB\<close>, \<open>subterms\<close> runs
  the arm it runs for \<open>AT_APPL\<close>: it returns \<open>ATgetArity(ATgetSymbol(t))\<close>, as it does
  for an application \<open>u\<close>. The scalar tags get no zero and no sentinel of their own.
\<close>

theorem subterms_scalar_as_appl:
  assumes scalar: "GET_TYPE L (header L m t) \<in> {AT_INT L, AT_REAL L, AT_BLOB L}"
    and appl: "GET_TYPE L (header L m u) = AT_APPL L"
  shows "subterms_arm L m t = subterms_arm L m u \<and>
         subterms L t m = (case ATgetSymbol L t m of (s, m1) \<Rightarrow> ATgetArity L s m1) \<and>
         subterms L u m = (case ATgetSymbol L u m of (s, m1) \<Rightarrow> ATgetArity L s m1)"
proof -
  from scalar have t: "subterms_arm L m t = Listed"
    by (auto simp: subterms_arm_Listed)
  from appl have u: "subterms_arm L m u = Listed"
    by (simp add: subterms_arm_Listed)
  from t u subterms_Listed [OF t] subterms_Listed [OF u] show ?thesis
    by simp
qed

theorem subterms_scalar_as_appl_witness:
  "GET_TYPE sample (header sample sample_memory (Pointer 10)) = AT_BLOB sample \<and>
   GET_TYPE sample (header sample sample_memory (Pointer 5)) = AT_APPL sample \<and>
   subterms_arm sample sample_memory (Pointer 10) = subterms_arm sample sample_memory (Pointer 5) \<and>
   subterms sample (Pointer 10) sample_memory = ATgetArity sample 1 sample_memory \<and>
   subterms sample (Pointer 5) sample_memory = ATgetArity sample 1 sample_memory"
proof -
  have scalar: "GET_TYPE sample (header sample sample_memory (Pointer 10))
             \<in> {AT_INT sample, AT_REAL sample, AT_BLOB sample}"
    by (simp add: sample_simps)
  have appl: "GET_TYPE sample (header sample sample_memory (Pointer 5)) = AT_APPL sample"
    by (simp add: sample_simps)
  show ?thesis
    using subterms_scalar_as_appl [OF scalar appl] by (simp add: sample_simps)
qed

text \<open>
  Claim C4: for a term of any other tag, \<open>subterms\<close> takes its default arm and returns
  the pointer \<open>NULL\<close> through its \<open>int\<close> result. That is the integer 0: the very value
  it returns for an application \<open>u\<close> whose symbol has arity 0, so the result alone does
  not tell a term that has no arity from a term of arity 0.
\<close>

theorem subterms_default_conflated:
  assumes dflt: "GET_TYPE L (header L m t) \<notin> {AT_INT L, AT_REAL L, AT_BLOB L, AT_APPL L}"
    and appl: "GET_TYPE L (header L m u) = AT_APPL L"
    and symb: "ATgetSymbol L u m = (s, m1)"
    and zero: "ATgetArity L s m1 = (0, m2)"
  shows "subterms_arm L m t = Default \<and>
         subterms L t m = (int_of_pointer NULL, m) \<and>
         int_of_pointer NULL = 0 \<and>
         fst (subterms L u m) = fst (subterms L t m)"
proof -
  from dflt have arm: "subterms_arm L m t = Default"
    by (simp add: subterms_arm_Default)
  then have t: "subterms L t m = (int_of_pointer NULL, m)"
    by (rule subterms_Default)
  from appl have "subterms_arm L m u = Listed"
    by (simp add: subterms_arm_Listed)
  with symb zero have "subterms L u m = (0, m2)"
    by (simp add: subterms_Listed)
  with arm t int_of_NULL show ?thesis by simp
qed

theorem subterms_default_conflated_witness:
  "GET_TYPE sample (header sample sample_memory (Pointer 9)) = 4 \<and>
   GET_TYPE sample (header sample sample_memory (Pointer 8)) = AT_APPL sample \<and>
   subterms_arm sample sample_memory (Pointer 9) = Default \<and>
   subterms sample (Pointer 9) sample_memory = (0, sample_memory) \<and>
   subterms sample (Pointer 8) sample_memory = (0, sample_memory)"
proof -
  have dflt: "GET_TYPE sample (header sample sample_memory (Pointer 9))
             \<notin> {AT_INT sample, AT_REAL sample, AT_BLOB sample, AT_APPL sample}"
    by (simp add: sample_simps)
  have appl: "GET_TYPE sample (header sample sample_memory (Pointer 8)) = AT_APPL sample"
    by (simp add: sample_simps)
  have symb: "ATgetSymbol sample (Pointer 8) sample_memory = (0, sample_memory)"
    by (simp add: sample_simps)
  have zero: "ATgetArity sample 0 sample_memory = (0, sample_memory)"
    by (simp add: sample_simps)
  show ?thesis
    using subterms_default_conflated [OF dflt appl symb zero] by (simp add: sample_simps)
qed

text \<open>
  Claim C1 asks for the result 0 on every atomic scalar term. The code has no arm that
  gives it: for a term whose tag is \<open>AT_INT\<close>, \<open>AT_REAL\<close> or \<open>AT_BLOB\<close>, \<open>subterms\<close> casts
  the term to an application and returns the arity \<open>a\<close> that the library reports for
  the symbol read from it. Whenever that arity is not 0, the number returned for a
  term without subterms is not 0.
\<close>

theorem subterms_scalar_returns_library_arity:
  assumes scalar: "GET_TYPE L (header L m t) \<in> {AT_INT L, AT_REAL L, AT_BLOB L}"
    and symb: "ATgetSymbol L t m = (s, m1)"
    and arity: "ATgetArity L s m1 = (a, m2)"
    and nonzero: "a \<noteq> 0"
  shows "subterms L t m = (a, m2) \<and> fst (subterms L t m) \<noteq> 0"
proof -
  from scalar have "subterms_arm L m t = Listed"
    by (auto simp: subterms_arm_Listed)
  with symb arity have "subterms L t m = (a, m2)"
    by (simp add: subterms_Listed)
  with nonzero show ?thesis by simp
qed

theorem subterms_scalar_returns_library_arity_witness:
  "GET_TYPE sample (header sample sample_memory (Pointer 10)) = AT_BLOB sample \<and>
   ATgetSymbol sample (Pointer 10) sample_memory = (1, sample_memory) \<and>
   ATgetArity sample 1 sample_memory = (2, sample_memory) \<and>
   subterms sample (Pointer 10) sample_memory = (2, sample_memory) \<and>
   fst (subterms sample (Pointer 10) sample_memory) \<noteq> 0"
proof -
  have scalar: "GET_TYPE sample (header sample sample_memory (Pointer 10))
             \<in> {AT_INT sample, AT_REAL sample, AT_BLOB sample}"
    by (simp add: sample_def flat_def flat_header_def flat_GET_TYPE_def word_at_def
        sample_memory_def)
  have tag: "GET_TYPE sample (header sample sample_memory (Pointer 10)) = AT_BLOB sample"
    by (simp add: sample_def flat_def flat_header_def flat_GET_TYPE_def word_at_def
        sample_memory_def)
  have symb: "ATgetSymbol sample (Pointer 10) sample_memory = (1, sample_memory)"
    by (simp add: sample_def flat_def flat_ATgetSymbol_def word_at_def sample_memory_def)
  have arity: "ATgetArity sample 1 sample_memory = (2, sample_memory)"
    by (simp add: sample_def flat_def flat_ATgetArity_def sample_symbols_def)
  have nonzero: "(2::int) \<noteq> 0" by simp
  from subterms_scalar_returns_library_arity [OF scalar symb arity nonzero] tag symb arity
  show ?thesis by simp
qed

subsection \<open>\<open>next_subterm\<close>\<close>

text \<open>
  Claim C9: \<open>next_subterm\<close> checks nothing about its index. For a term whose tag is
  \<open>AT_INT\<close>, \<open>AT_REAL\<close>, \<open>AT_BLOB\<close> or \<open>AT_APPL\<close> and for every integer \<open>n\<close>, negative or
  beyond the arity included, it is the call \<open>ATgetArgument(t, n)\<close> and nothing else.
\<close>

theorem next_subterm_delegates:
  assumes "GET_TYPE L (header L m t) \<in> {AT_INT L, AT_REAL L, AT_BLOB L, AT_APPL L}"
  shows "next_subterm L t n m = ATgetArgument L t n m"
proof -
  from assms have "next_subterm_arm L m t n = Listed"
    by (simp only: next_subterm_arm_Listed)
  then show ?thesis
    by (rule next_subterm_Listed)
qed

theorem next_subterm_delegates_witness:
  "GET_TYPE sample (header sample sample_memory (Pointer 5)) = AT_APPL sample \<and>
   fst (subterms sample (Pointer 5) sample_memory) = 2 \<and>
   next_subterm sample (Pointer 5) 2 sample_memory
     = ATgetArgument sample (Pointer 5) 2 sample_memory \<and>
   next_subterm sample (Pointer 5) (- 1) sample_memory
     = ATgetArgument sample (Pointer 5) (- 1) sample_memory"
proof -
  have h: "GET_TYPE sample (header sample sample_memory (Pointer 5))
             \<in> {AT_INT sample, AT_REAL sample, AT_BLOB sample, AT_APPL sample}"
    by (simp add: sample_simps)
  show ?thesis
    using next_subterm_delegates [OF h, of 2] next_subterm_delegates [OF h, of "- 1"]
    by (simp add: sample_simps)
qed

text \<open>
  Claim C2, as amended: \<open>next_subterm\<close> makes no check of its own on the index or
  against scalar terms, and \<open>NULL\<close> is its one failure value. For every term and every
  index \<open>i\<close>, negative or beyond the arity included, it returns what
  \<open>ATgetArgument(t, i)\<close> returns when the tag of the term is one of the four, scalar
  tags included, and \<open>NULL\<close> with the state untouched otherwise. So it returns \<open>NULL\<close>
  exactly when \<open>ATgetArgument(t, i)\<close> itself yields \<open>NULL\<close> or the tag is none of the
  four.
\<close>

theorem next_subterm_unchecked:
  "next_subterm L t i m =
     (if GET_TYPE L (header L m t) \<in> {AT_INT L, AT_REAL L, AT_BLOB L, AT_APPL L}
      then ATgetArgument L t i m else (NULL, m)) \<and>
   (fst (next_subterm L t i m) = NULL \<longleftrightarrow>
      fst (ATgetArgument L t i m) = NULL \<or>
      GET_TYPE L (header L m t) \<notin> {AT_INT L, AT_REAL L, AT_BLOB L, AT_APPL L})"
proof (cases "next_subterm_arm L m t i")
  case Listed
  moreover from Listed
  have "GET_TYPE L (header L m t) \<in> {AT_INT L, AT_REAL L, AT_BLOB L, AT_APPL L}"
    by (simp add: next_subterm_arm_Listed)
  ultimately show ?thesis by (simp add: next_subterm_Listed)
next
  case Default
  moreover from Default
  have "GET_TYPE L (header L m t) \<notin> {AT_INT L, AT_REAL L, AT_BLOB L, AT_APPL L}"
    by (simp add: next_subterm_arm_Default)
  ultimately show ?thesis by (simp add: next_subterm_Default)
qed

theorem next_subterm_unchecked_witness:
  "next_subterm sample (Pointer 5) 7 sample_memory
     = ATgetArgument sample (Pointer 5) 7 sample_memory \<and>
   next_subterm sample (Pointer 1) (- 3) sample_memory
     = ATgetArgument sample (Pointer 1) (- 3) sample_memory \<and>
   fst (next_subterm sample (Pointer 1) (- 3) sample_memory) = NULL \<and>
   next_subterm sample (Pointer 9) 0 sample_memory = (NULL, sample_memory)"
  using next_subterm_unchecked [of sample "Pointer 5" 7 sample_memory]
    next_subterm_unchecked [of sample "Pointer 1" "- 3" sample_memory]
    next_subterm_unchecked [of sample "Pointer 9" 0 sample_memory]
  by (simp add: sample_def flat_def flat_header_def flat_GET_TYPE_def word_at_def
      sample_memory_def flat_ATgetArgument_def NULL_def)

text \<open>
  Claim C2 as stated fails on the sample memory. The application \<open>f(1, 2)\<close> at address 5
  has arity 2; at index 2 \<open>next_subterm\<close> returns the address 1, which is what it
  returns at index 0 for the first child, and at index \<open>-1\<close> it returns the address 9.
  For the integer at address 1, an atomic scalar term, it returns the address 1 as well.
  None of the three results is \<open>NULL\<close>.
\<close>

theorem next_subterm_unchecked_counterexample:
  "fst (subterms sample (Pointer 5) sample_memory) = 2 \<and>
   fst (next_subterm sample (Pointer 5) 0 sample_memory) = Pointer 1 \<and>
   fst (next_subterm sample (Pointer 5) 2 sample_memory) = Pointer 1 \<and>
   fst (next_subterm sample (Pointer 5) (- 1) sample_memory) = Pointer 9 \<and>
   GET_TYPE sample (header sample sample_memory (Pointer 1)) = AT_INT sample \<and>
   fst (next_subterm sample (Pointer 1) 0 sample_memory) = Pointer 1 \<and>
   Pointer 1 \<noteq> NULL \<and> Pointer 9 \<noteq> NULL"
  by (simp add: sample_simps)

subsection \<open>Both functions\<close>

text \<open>
  A function takes its default arm on a term when it returns the sentinel and the
  state it was given whatever the library calls of its other arm would do. The
  library calls are fields of \<open>L\<close>, so this is said of the functions themselves by
  replacing those fields. Replacing them does not change what a switch selects.
\<close>

lemma subterms_arm_update [simp]:
  "subterms_arm (L\<lparr>ATgetSymbol := S\<rparr>) m t = subterms_arm L m t"
  "subterms_arm (L\<lparr>ATgetArity := A\<rparr>) m t = subterms_arm L m t"
  by (simp_all add: subterms_arm_def Let_def)

lemma next_subterm_arm_update [simp]:
  "next_subterm_arm (L\<lparr>ATgetArgument := G\<rparr>) m t n = next_subterm_arm L m t n"
  by (simp add: next_subterm_arm_def Let_def)

lemma subterms_ignores_library_iff:
  "(\<forall>S A. subterms (L\<lparr>ATgetSymbol := S, ATgetArity := A\<rparr>) t m = (int_of_pointer NULL, m))
     \<longleftrightarrow> subterms_arm L m t = Default"
proof
  assume ignores: "\<forall>S A. subterms (L\<lparr>ATgetSymbol := S, ATgetArity := A\<rparr>) t m
      = (int_of_pointer NULL, m)"
  show "subterms_arm L m t = Default"
  proof (rule ccontr)
    assume "subterms_arm L m t \<noteq> Default"
    then have listed: "subterms_arm L m t = Listed" by (cases "subterms_arm L m t") auto
    let ?L' = "L\<lparr>ATgetSymbol := ATgetSymbol L, ATgetArity := \<lambda>s m. (1, m)\<rparr>"
    from listed have "subterms_arm ?L' m t = Listed" by simp
    then have "fst (subterms ?L' t m) = 1"
      by (simp add: subterms_Listed case_prod_beta)
    moreover from ignores have "subterms ?L' t m = (int_of_pointer NULL, m)" by blast
    ultimately show False by (simp add: int_of_NULL)
  qed
next
  assume "subterms_arm L m t = Default"
  then show "\<forall>S A. subterms (L\<lparr>ATgetSymbol := S, ATgetArity := A\<rparr>) t m
      = (int_of_pointer NULL, m)"
    by (simp add: subterms_Default)
qed

lemma next_subterm_ignores_library_iff:
  "(\<forall>G. next_subterm (L\<lparr>ATgetArgument := G\<rparr>) t n m = (NULL, m))
     \<longleftrightarrow> next_subterm_arm L m t n = Default"
proof
  assume ignores: "\<forall>G. next_subterm (L\<lparr>ATgetArgument := G\<rparr>) t n m = (NULL, m)"
  show "next_subterm_arm L m t n = Default"
  proof (rule ccontr)
    assume "next_subterm_arm L m t n \<noteq> Default"
    then have listed: "next_subterm_arm L m t n = Listed"
      by (cases "next_subterm_arm L m t n") auto
    let ?L' = "L\<lparr>ATgetArgument := \<lambda>t n m. (Pointer 1, m)\<rparr>"
    from listed have "next_subterm_arm ?L' m t n = Listed" by simp
    then have "fst (next_subterm ?L' t n m) = Pointer 1"
      by (simp add: next_subterm_Listed)
    moreover from ignores have "next_subterm ?L' t n m = (NULL, m)" by blast
    ultimately show False by (simp add: NULL_def)
  qed
next
  assume "next_subterm_arm L m t n = Default"
  then show "\<forall>G. next_subterm (L\<lparr>ATgetArgument := G\<rparr>) t n m = (NULL, m)"
    by (simp add: next_subterm_Default)
qed

text \<open>
  Claim C10: the two functions split the terms alike. \<open>subterms\<close> takes its default arm
  on a term, returning its sentinel whatever \<open>ATgetSymbol\<close> and \<open>ATgetArity\<close> would do,
  if and only if \<open>next_subterm\<close> takes its default arm on that term for every index,
  returning \<open>NULL\<close> whatever \<open>ATgetArgument\<close> would do. For each function that is the
  case exactly when its own switch selects \<open>default\<close>, and the two switches select
  \<open>default\<close> on the same terms.
\<close>

theorem same_partition:
  "((\<forall>S A. subterms (L\<lparr>ATgetSymbol := S, ATgetArity := A\<rparr>) t m = (int_of_pointer NULL, m))
      \<longleftrightarrow> (\<forall>n G. next_subterm (L\<lparr>ATgetArgument := G\<rparr>) t n m = (NULL, m))) \<and>
   ((\<forall>S A. subterms (L\<lparr>ATgetSymbol := S, ATgetArity := A\<rparr>) t m = (int_of_pointer NULL, m))
      \<longleftrightarrow> subterms_arm L m t = Default) \<and>
   ((\<forall>G. next_subterm (L\<lparr>ATgetArgument := G\<rparr>) t n m = (NULL, m))
      \<longleftrightarrow> next_subterm_arm L m t n = Default) \<and>
   (subterms_arm L m t = Default \<longleftrightarrow> (\<forall>n. next_subterm_arm L m t n = Default))"
proof -
  have arms: "subterms_arm L m t = Default \<longleftrightarrow> (\<forall>n. next_subterm_arm L m t n = Default)"
    by (simp add: subterms_arm_def next_subterm_arm_def)
  have "(\<forall>n G. next_subterm (L\<lparr>ATgetArgument := G\<rparr>) t n m = (NULL, m))
          \<longleftrightarrow> (\<forall>n. next_subterm_arm L m t n = Default)"
    by (simp only: next_subterm_ignores_library_iff)
  with arms show ?thesis
    by (simp only: subterms_ignores_library_iff next_subterm_ignores_library_iff simp_thms)
qed

theorem same_partition_witness:
  "(\<forall>S A. subterms (sample\<lparr>ATgetSymbol := S, ATgetArity := A\<rparr>) (Pointer 9) sample_memory
       = (int_of_pointer NULL, sample_memory)) \<and>
   (\<forall>n G. next_subterm (sample\<lparr>ATgetArgument := G\<rparr>) (Pointer 9) n sample_memory
       = (NULL, sample_memory)) \<and>
   \<not> (\<forall>S A. subterms (sample\<lparr>ATgetSymbol := S, ATgetArity := A\<rparr>) (Pointer 5) sample_memory
       = (int_of_pointer NULL, sample_memory)) \<and>
   \<not> (\<forall>n G. next_subterm (sample\<lparr>ATgetArgument := G\<rparr>) (Pointer 5) n sample_memory
       = (NULL, sample_memory))"
proof -
  have dflt: "subterms_arm sample sample_memory (Pointer 9) = Default"
    by (simp add: sample_simps)
  have listed: "subterms_arm sample sample_memory (Pointer 5) \<noteq> Default"
    by (simp add: sample_simps)
  from same_partition [of sample "Pointer 9" sample_memory] dflt
  have nine:
    "(\<forall>S A. subterms (sample\<lparr>ATgetSymbol := S, ATgetArity := A\<rparr>) (Pointer 9) sample_memory
       = (int_of_pointer NULL, sample_memory)) \<and>
     (\<forall>n G. next_subterm (sample\<lparr>ATgetArgument := G\<rparr>) (Pointer 9) n sample_memory
       = (NULL, sample_memory))"
    by blast
  from same_partition [of sample "Pointer 5" sample_memory] listed
  have five:
    "\<not> (\<forall>S A. subterms (sample\<lparr>ATgetSymbol := S, ATgetArity := A\<rparr>) (Pointer 5) sample_memory
       = (int_of_pointer NULL, sample_memory)) \<and>
     \<not> (\<forall>n G. next_subterm (sample\<lparr>ATgetArgument := G\<rparr>) (Pointer 5) n sample_memory
       = (NULL, sample_memory))"
    by blast
  from nine five show ?thesis by blast
qed

text \<open>
  Claim C3 asks that every error be told apart from every valid result. The code
  breaks it in \<open>subterms\<close>, whose default arm returns the pointer \<open>NULL\<close> from a function
  declared \<open>int\<close>. On the sample memory the error result for the term at address 9,
  whose tag is none of the four, is the pair that \<open>subterms\<close> returns for the constant
  \<open>c\<close> at address 8, a valid application of arity 0. The state is the one the call
  started in, and \<open>next_subterm\<close> returns its pointer-typed \<open>NULL\<close> for the same term.
\<close>

theorem subterms_error_equals_valid_arity:
  "GET_TYPE sample (header sample sample_memory (Pointer 9)) = 4 \<and>
   subterms_arm sample sample_memory (Pointer 9) = Default \<and>
   GET_TYPE sample (header sample sample_memory (Pointer 8)) = AT_APPL sample \<and>
   subterms_arm sample sample_memory (Pointer 8) = Listed \<and>
   subterms sample (Pointer 9) sample_memory = (0, sample_memory) \<and>
   subterms sample (Pointer 8) sample_memory = (0, sample_memory) \<and>
   next_subterm sample (Pointer 9) 0 sample_memory = (NULL, sample_memory)"
  by (simp add: sample_simps)

subsection \<open>Enumerating the children of an application\<close>

lemma is_apply_argument:
  assumes "is_apply L m t s cs" and "i < length cs"
  shows "ATgetArgument L t (int i) m = (cs ! i, m)"
proof -
  from assms(1) have eq:
    "map (\<lambda>i. ATgetArgument L t (int i) m) [0..<length cs] = map (\<lambda>c. (c, m)) cs"
    by (simp add: is_apply_def)
  from assms(2) have "map (\<lambda>i. ATgetArgument L t (int i) m) [0..<length cs] ! i
      = ATgetArgument L t (int i) m"
    by simp
  moreover from assms(2) have "map (\<lambda>c. (c, m)) cs ! i = (cs ! i, m)"
    by simp
  ultimately show ?thesis using eq by simp
qed

lemma is_apply_next_subterm:
  assumes "is_apply L m t s cs" and "i < length cs"
  shows "next_subterm L t (int i) m = (cs ! i, m)"
proof -
  from assms(1) have "next_subterm_arm L m t (int i) = Listed"
    by (simp add: is_apply_def next_subterm_arm_Listed)
  then have "next_subterm L t (int i) m = ATgetArgument L t (int i) m"
    by (rule next_subterm_Listed)
  with assms show ?thesis by (simp add: is_apply_argument)
qed

lemma is_apply_subterms:
  assumes "is_apply L m t s cs"
  shows "subterms L t m = (int (length cs), m)"
proof -
  from assms have "subterms_arm L m t = Listed"
    by (simp add: is_apply_def subterms_arm_Listed)
  with assms show ?thesis
    by (simp add: subterms_Listed is_apply_def)
qed

lemma is_apply_children_from:
  assumes "is_apply L m t s cs"
  shows "i + k \<le> length cs \<Longrightarrow> children_from L t (int i) k m = (take k (drop i cs), m)"
proof (induction k arbitrary: i)
  case 0
  show ?case by simp
next
  case (Suc k)
  then have i: "i < length cs" and rest: "Suc i + k \<le> length cs" by simp_all
  have step: "next_subterm L t (int i) m = (cs ! i, m)"
    using assms i by (rule is_apply_next_subterm)
  have next_index: "int i + 1 = int (Suc i)" by simp
  have tail: "children_from L t (int i + 1) k m = (take k (drop (Suc i) cs), m)"
    unfolding next_index using rest by (rule Suc.IH)
  have "take (Suc k) (drop i cs) = cs ! i # take k (drop (Suc i) cs)"
    using i by (simp add: Cons_nth_drop_Suc [symmetric])
  with step tail show ?case by simp
qed

text \<open>
  Claim C5: for an Application term \<open>t\<close> built from a symbol \<open>s\<close> and the children \<open>cs\<close>,
  \<open>subterms\<close> returns the length of \<open>cs\<close>, and calling \<open>next_subterm\<close> at the indices from
  0 up to that count less one yields the elements of \<open>cs\<close> in their order. The state
  is the one the enumeration started in.
\<close>

theorem apply_arity_and_children:
  assumes "is_apply L m t s cs"
  shows "subterms L t m = (int (length cs), m) \<and> children L t m = (cs, m)"
proof -
  have a: "subterms L t m = (int (length cs), m)"
    using assms by (rule is_apply_subterms)
  have "children_from L t (int 0) (length cs) m = (take (length cs) (drop 0 cs), m)"
    using assms by (rule is_apply_children_from) simp
  with a show ?thesis by (simp add: children_def)
qed

theorem apply_arity_and_children_witness:
  "is_apply sample sample_memory (Pointer 5) 1 [Pointer 1, Pointer 3] \<and>
   subterms sample (Pointer 5) sample_memory = (2, sample_memory) \<and>
   children sample (Pointer 5) sample_memory = ([Pointer 1, Pointer 3], sample_memory)"
proof -
  have h: "is_apply sample sample_memory (Pointer 5) 1 [Pointer 1, Pointer 3]"
    by (simp add: is_apply_def sample_simps upt_rec)
  show ?thesis
    using h apply_arity_and_children [OF h] by simp
qed

subsection \<open>No effect of their own\<close>

lemma read_only_next_subterm:
  assumes "read_only L"
  shows "snd (next_subterm L t n m) = m"
proof (cases "next_subterm_arm L m t n")
  case Listed
  with assms show ?thesis by (simp add: next_subterm_Listed read_only_def)
next
  case Default
  then show ?thesis by (simp add: next_subterm_Default)
qed

lemma read_only_subterms:
  assumes "read_only L"
  shows "snd (subterms L t m) = m"
proof (cases "subterms_arm L m t")
  case Listed
  with assms show ?thesis by (simp add: subterms_Listed read_only_def case_prod_beta)
next
  case Default
  then show ?thesis by (simp add: subterms_Default)
qed

lemma read_only_children_from:
  assumes "read_only L"
  shows "snd (children_from L t i k m) = m"
proof (induction k arbitrary: i)
  case 0
  show ?case by simp
next
  case (Suc k)
  have "snd (next_subterm L t i m) = m"
    using assms by (rule read_only_next_subterm)
  with Suc.IH [of "i + 1"] show ?case by (simp add: case_prod_beta)
qed

lemma length_children_from: "length (fst (children_from L t i k m)) = k"
  by (induction k arbitrary: i m) (simp_all add: case_prod_beta)

lemma read_only_sample: "read_only sample"
  by (simp add: read_only_def sample_def flat_def flat_ATgetSymbol_def flat_ATgetArity_def
      flat_ATgetArgument_def)

text \<open>
  Claim C7: enumerating the children has no effect and can be restarted. The two
  functions write nothing themselves, so with a library whose three accessors only
  read, a call of \<open>next_subterm\<close> leaves the state as it was and gives the same result
  when repeated; the same holds for the whole enumeration, which is a list of as many
  children as \<open>subterms\<close> counts.
\<close>

theorem children_restartable:
  assumes "read_only L"
  shows "snd (next_subterm L t n m) = m \<and>
         next_subterm L t n (snd (next_subterm L t n m)) = next_subterm L t n m \<and>
         snd (children L t m) = m \<and>
         children L t (snd (children L t m)) = children L t m \<and>
         length (fst (children L t m)) = nat (fst (subterms L t m))"
proof -
  have one: "snd (next_subterm L t n m) = m"
    using assms by (rule read_only_next_subterm)
  have "snd (subterms L t m) = m"
    using assms by (rule read_only_subterms)
  then have unfolded: "children L t m = children_from L t 0 (nat (fst (subterms L t m))) m"
    by (simp add: children_def case_prod_beta)
  have all: "snd (children L t m) = m"
    unfolding unfolded using assms by (rule read_only_children_from)
  have len: "length (fst (children L t m)) = nat (fst (subterms L t m))"
    unfolding unfolded by (rule length_children_from)
  from one all len show ?thesis by simp
qed

theorem children_restartable_witness:
  "read_only sample \<and>
   next_subterm sample (Pointer 5) 1 sample_memory = (Pointer 3, sample_memory) \<and>
   next_subterm sample (Pointer 5) 1 (snd (next_subterm sample (Pointer 5) 1 sample_memory))
     = (Pointer 3, sample_memory) \<and>
   children sample (Pointer 5) (snd (children sample (Pointer 5) sample_memory))
     = children sample (Pointer 5) sample_memory \<and>
   length (fst (children sample (Pointer 5) sample_memory)) = 2"
proof -
  have child: "next_subterm sample (Pointer 5) 1 sample_memory = (Pointer 3, sample_memory)"
    by (simp add: sample_simps)
  have count: "fst (subterms sample (Pointer 5) sample_memory) = 2"
    by (simp add: sample_simps)
  show ?thesis
    using read_only_sample
      children_restartable [OF read_only_sample, of "Pointer 5" 1 sample_memory]
    by (simp add: child count)
qed

section \<open>Properties of the term store\<close>

lemma find_slot_None: "find_slot k st = None \<longleftrightarrow> k \<notin> set st"
  by (induction st) auto

lemma find_slot_append:
  "find_slot k st = Some h \<Longrightarrow> find_slot k (st @ ys) = Some h"
  by (induction st arbitrary: h) (auto split: if_splits)

lemma find_slot_fresh: "k \<notin> set st \<Longrightarrow> find_slot k (st @ [k]) = Some (length st)"
  by (induction st) auto

lemma find_slot_after_intern:
  "find_slot k (snd (intern k st)) = Some (fst (intern k st))"
proof (cases "find_slot k st")
  case None
  then have "k \<notin> set st" by (simp add: find_slot_None)
  then have "find_slot k (st @ [k]) = Some (length st)" by (rule find_slot_fresh)
  with None show ?thesis by (simp add: intern_def)
next
  case (Some h)
  then show ?thesis by (simp add: intern_def)
qed

lemma find_slot_kept_by_intern:
  assumes "find_slot k st = Some h"
  shows "find_slot k (snd (intern x st)) = Some h"
proof (cases "find_slot x st")
  case None
  with assms show ?thesis by (simp add: intern_def find_slot_append)
next
  case (Some j)
  with assms show ?thesis by (simp add: intern_def)
qed

lemma find_slot_kept_by_intern_all:
  "find_slot k st = Some h \<Longrightarrow> find_slot k (intern_all ks st) = Some h"
  by (induction ks arbitrary: st) (simp_all add: find_slot_kept_by_intern)

lemma intern_found: "find_slot k st = Some h \<Longrightarrow> intern k st = (h, st)"
  by (simp add: intern_def)

lemma intern_again:
  "intern k (intern_all ks (snd (intern k st)))
     = (fst (intern k st), intern_all ks (snd (intern k st)))"
  by (rule intern_found, rule find_slot_kept_by_intern_all, rule find_slot_after_intern)

text \<open>
  Claim C6: two construction calls with structurally identical arguments return equal
  handles. The second call may come after any number of other constructions \<open>ks\<close>;
  it returns the handle the first call returned. This holds for \<open>intern\<close> and so for
  each of the four constructors.
\<close>

theorem interning_idempotent:
  "fst (intern k (intern_all ks (snd (intern k st)))) = fst (intern k st) \<and>
   fst (apply_term s cs (intern_all ks (snd (apply_term s cs st)))) = fst (apply_term s cs st) \<and>
   fst (integer_term i (intern_all ks (snd (integer_term i st)))) = fst (integer_term i st) \<and>
   fst (real_term r (intern_all ks (snd (real_term r st)))) = fst (real_term r st) \<and>
   fst (blob_term b (intern_all ks (snd (blob_term b st)))) = fst (blob_term b st)"
proof -
  have "fst (apply_term s cs (intern_all ks (snd (apply_term s cs st))))
          = fst (apply_term s cs st)"
  proof (cases "length cs = declared_arity s")
    case True
    then show ?thesis
      by (simp add: apply_term_def intern_again case_prod_beta)
  next
    case False
    then show ?thesis by (simp add: apply_term_def)
  qed
  then show ?thesis
    by (simp add: intern_again integer_term_def real_term_def blob_term_def)
qed

theorem interning_idempotent_witness:
  "fst (apply_term (Symbol ''f'' 2) [0, 1] [Integer 1, Integer 2 :: unit Term]) = Inr 2 \<and>
   fst (apply_term (Symbol ''f'' 2) [0, 1]
          (intern_all [Integer 7, Blob [255]]
             (snd (apply_term (Symbol ''f'' 2) [0, 1] [Integer 1, Integer 2 :: unit Term]))))
     = Inr 2"
proof -
  have first: "fst (apply_term (Symbol ''f'' 2) [0, 1] [Integer 1, Integer 2 :: unit Term]) = Inr 2"
    by (simp add: apply_term_def intern_def)
  with interning_idempotent
    [of _ "[Integer 7, Blob [255]]" "[Integer 1, Integer 2 :: unit Term]" "Symbol ''f'' 2" "[0, 1]"]
  show ?thesis by simp
qed

end
